theory Spec2Isabelle
  imports Complex_Main "HOL-Library.Log_Nat"
begin

section \<open>The application store (useAppStore)\<close>

text \<open>
  The Zustand store of the front end. A call \<open>set(partial)\<close> merges the given fields into
  the state and leaves every other field as it was, which is a record update here.
\<close>

subsection \<open>Numbers\<close>

text \<open>
  A JavaScript number is an IEEE 754 double: a finite value, which is a rational, one of
  the two infinities, or NaN. The two zeros, which \<open>===\<close> does not tell apart, are one value
  here. \<open>pow2 e\<close> is the power of two with an integer exponent, and \<open>floor_log2 q\<close> the
  exponent of the largest power of two that is at most the positive rational \<open>q\<close>: it is
  the difference of the bit lengths of numerator and denominator, or one less.
\<close>

datatype number = Finite rat | PosInfinity | NegInfinity | NaN

definition pow2 :: "int \<Rightarrow> rat" where
  "pow2 e = (if 0 \<le> e then 2 ^ nat e else 1 / 2 ^ nat (- e))"

definition floor_log2 :: "rat \<Rightarrow> int" where
  "floor_log2 q =
     (let (a, b) = quotient_of q; d = bitlen a - bitlen b
      in if pow2 d \<le> q then d else d - 1)"

text \<open>The integer nearest to a rational, the even one of the two when it is halfway.\<close>

definition round_half_even :: "rat \<Rightarrow> int" where
  "round_half_even q =
     (let f = \<lfloor>q\<rfloor>; r = q - of_int f
      in if r < 1 / 2 then f else if 1 / 2 < r then f + 1 else if even f then f else f + 1)"

text \<open>
  The double nearest to a rational (round to nearest, ties to even). A double has a
  significand of 53 bits, so the result is a multiple of \<open>pow2 e\<close> with \<open>e\<close> 52 below the
  exponent of the value, and never below -1074, the exponent of the smallest subnormal;
  a result of \<open>2 ^ 1024\<close> or more is infinite.
\<close>

definition round_double :: "rat \<Rightarrow> number" where
  "round_double q =
     (if q = 0 then Finite 0
      else
        let e = max (floor_log2 \<bar>q\<bar> - 52) (- 1074);
            r = of_int (round_half_even (\<bar>q\<bar> / pow2 e)) * pow2 e
        in if 2 ^ 1024 \<le> r then (if 0 < q then PosInfinity else NegInfinity)
           else Finite (if 0 < q then r else - r))"

text \<open>The operator \<open>+\<close> on two numbers.\<close>

fun num_add :: "number \<Rightarrow> number \<Rightarrow> number" where
  "num_add NaN y = NaN"
| "num_add x NaN = NaN"
| "num_add PosInfinity NegInfinity = NaN"
| "num_add NegInfinity PosInfinity = NaN"
| "num_add PosInfinity y = PosInfinity"
| "num_add x PosInfinity = PosInfinity"
| "num_add NegInfinity y = NegInfinity"
| "num_add x NegInfinity = NegInfinity"
| "num_add (Finite a) (Finite b) = round_double (a + b)"

text \<open>\<open>x || d\<close> for a number \<open>x\<close>: zero and NaN are falsy.\<close>

definition num_or :: "number \<Rightarrow> number \<Rightarrow> number" where
  "num_or x d = (if x = Finite 0 \<or> x = NaN then d else x)"

subsection \<open>State and operations\<close>

text \<open>
  The experience points are a number as above, since \<open>addXp\<close> adds to them whatever amount
  it is given. The numbers that only count or are compared (grade, progress percentage,
  byte size, round counter, millisecond clock) are integers, and the per-subject score
  averages are rationals.
\<close>

datatype Subject = Math | Science | English | Hindi | GK

record StudentProfile =
  student_id :: string
  name :: string
  grade :: int
  subject :: Subject
  iq_scores :: "string \<rightharpoonup> rat"
  eq_scores :: "string \<rightharpoonup> rat"
  learning_style :: string
  xp :: number
  textbook_id :: "string option"

datatype Role = User | Ai

record AgentStep =
  agent :: string
  action :: string

text \<open>
  The field \<open>id\<close> of a chat message is \<open>msg_id\<close> here. The three optional fields are
  \<open>None\<close> when the property is absent from the object.
\<close>

record ChatMessage =
  msg_id :: string
  role :: Role
  content :: string
  timestamp :: string
  thoughtExpanded :: "bool option"
  agentSteps :: "AgentStep list option"
  safety_verified :: "bool option"

datatype Screen = Welcome | Game | Upload | Chat

datatype Theme = Dark | Light

record AppState =
  student :: "StudentProfile option"
  messages :: "ChatMessage list"
  isLoading :: bool
  currentScreen :: Screen
  isUploading :: bool
  uploadProgress :: int
  theme :: Theme

definition initialState :: AppState where
  "initialState =
     \<lparr>student = None, messages = [], isLoading = False, currentScreen = Welcome,
      isUploading = False, uploadProgress = 0, theme = Dark\<rparr>"

text \<open>JavaScript truthiness of an optional boolean property: absent and false are falsy.\<close>

definition truthy_flag :: "bool option \<Rightarrow> bool" where
  "truthy_flag b = (b = Some True)"

definition setStudent :: "StudentProfile \<Rightarrow> AppState \<Rightarrow> AppState" where
  "setStudent p s = s\<lparr>student := Some p\<rparr>"

definition addMessage :: "ChatMessage \<Rightarrow> AppState \<Rightarrow> AppState" where
  "addMessage m s = s\<lparr>messages := messages s @ [m]\<rparr>"

definition clearMessages :: "AppState \<Rightarrow> AppState" where
  "clearMessages s = s\<lparr>messages := []\<rparr>"

definition toggleThought :: "string \<Rightarrow> AppState \<Rightarrow> AppState" where
  "toggleThought messageId s =
     s\<lparr>messages :=
         map (\<lambda>msg. if msg_id msg = messageId
                     then msg\<lparr>thoughtExpanded := Some (\<not> truthy_flag (thoughtExpanded msg))\<rparr>
                     else msg)
             (messages s)\<rparr>"

definition setIsLoading :: "bool \<Rightarrow> AppState \<Rightarrow> AppState" where
  "setIsLoading loading s = s\<lparr>isLoading := loading\<rparr>"

definition setCurrentScreen :: "Screen \<Rightarrow> AppState \<Rightarrow> AppState" where
  "setCurrentScreen screen s = s\<lparr>currentScreen := screen\<rparr>"

definition setIsUploading :: "bool \<Rightarrow> AppState \<Rightarrow> AppState" where
  "setIsUploading uploading s = s\<lparr>isUploading := uploading\<rparr>"

text \<open>\<open>setUploadProgress\<close> takes a number or a function of the previous progress.\<close>

datatype ProgressArg = ProgressValue int | ProgressFn "int \<Rightarrow> int"

fun setUploadProgress :: "ProgressArg \<Rightarrow> AppState \<Rightarrow> AppState" where
  "setUploadProgress (ProgressFn f) s = s\<lparr>uploadProgress := f (uploadProgress s)\<rparr>"
| "setUploadProgress (ProgressValue v) s = s\<lparr>uploadProgress := v\<rparr>"

definition addXp :: "number \<Rightarrow> AppState \<Rightarrow> AppState" where
  "addXp amount s =
     s\<lparr>student := (case student s of
                      Some p \<Rightarrow> Some (p\<lparr>xp := num_add (xp p) amount\<rparr>)
                    | None \<Rightarrow> None)\<rparr>"

text \<open>
  \<open>toggleTheme\<close> also updates the class list of the document element:
  \<open>classList.toggle(token, force)\<close> adds the token when \<open>force\<close> is true and removes it
  otherwise. The class list is passed and returned next to the store.
\<close>

definition classList_toggle :: "string \<Rightarrow> bool \<Rightarrow> string set \<Rightarrow> string set" where
  "classList_toggle token force cl = (if force then insert token cl else cl - {token})"

definition toggleTheme :: "AppState \<Rightarrow> string set \<Rightarrow> AppState \<times> string set" where
  "toggleTheme s cl =
     (let newTheme = (if theme s = Dark then Light else Dark);
          cl1 = classList_toggle ''dark'' (newTheme = Dark) cl;
          cl2 = classList_toggle ''light'' (newTheme = Light) cl1
      in (s\<lparr>theme := newTheme\<rparr>, cl2))"

definition reset :: "AppState \<Rightarrow> AppState" where
  "reset s =
     s\<lparr>student := None, messages := [], isLoading := False, currentScreen := Welcome,
       isUploading := False, uploadProgress := 0\<rparr>"

text \<open>The part of the state that the \<open>persist\<close> middleware writes to local storage.\<close>

record Persisted =
  p_student :: "StudentProfile option"
  p_theme :: Theme
  p_currentScreen :: Screen

definition partialize :: "AppState \<Rightarrow> Persisted" where
  "partialize s = \<lparr>p_student = student s, p_theme = theme s, p_currentScreen = currentScreen s\<rparr>"

text \<open>
  The operations the store offers, as one type, so that a statement can range over
  every one of them.
\<close>

datatype StoreAction =
    SetStudent StudentProfile
  | AddMessage ChatMessage
  | ClearMessages
  | ToggleThought string
  | SetIsLoading bool
  | SetCurrentScreen Screen
  | SetIsUploading bool
  | SetUploadProgress ProgressArg
  | AddXp number
  | ToggleTheme
  | Reset

fun dispatch :: "StoreAction \<Rightarrow> AppState \<Rightarrow> AppState" where
  "dispatch (SetStudent p) s = setStudent p s"
| "dispatch (AddMessage m) s = addMessage m s"
| "dispatch ClearMessages s = clearMessages s"
| "dispatch (ToggleThought i) s = toggleThought i s"
| "dispatch (SetIsLoading b) s = setIsLoading b s"
| "dispatch (SetCurrentScreen sc) s = setCurrentScreen sc s"
| "dispatch (SetIsUploading b) s = setIsUploading b s"
| "dispatch (SetUploadProgress a) s = setUploadProgress a s"
| "dispatch (AddXp n) s = addXp n s"
| "dispatch ToggleTheme s = fst (toggleTheme s {})"
| "dispatch Reset s = reset s"


section \<open>Calls to collaborators\<close>

text \<open>
  What a screen does besides changing state (a toast, a console message, a request to the
  API client, a timer, a callback to its parent) is appended to a log, in the order of the calls.
  Toasts whose text embeds a number carry the number.
\<close>

record File =
  file_name :: string
  file_type :: string
  file_size :: nat

record GameResultData =
  gr_student_id :: string
  game_type :: string
  score :: int
  time_taken :: rat
  is_dynamic :: bool

datatype ChallengeType = IQ | EQ | Concept

datatype Timer = AfterCorrect nat | AfterWrong | UploadDone

datatype Effect =
    ToastError string
  | ToastXpEarned number
  | ToastChunksIndexed int
  | ConsoleError string
  | CreateChatStream string string
  | FetchMedia Subject
  | SubmitGameResult GameResultData
  | GenerateDynamicChallenge string Subject int ChallengeType
  | UploadTextbook File string Subject int
  | SetTimeout Timer nat
  | OnComplete

section \<open>The chat stream (ChatScreen)\<close>

text \<open>
  A string is the list of the bytes of its UTF-8 encoding. \<open>String.prototype.trim\<close> strips
  the white space and the line terminators of ECMAScript from both ends: the code
  points 9 to 13 and 32, U+00A0, U+1680, U+2000 to U+200A, U+2028, U+2029, U+202F, U+205F,
  U+3000 and U+FEFF. \<open>white_space\<close> lists their encodings. In UTF-8 no encoding is the
  beginning of another, and the first byte of an encoding is never a later byte of one,
  so a string begins (ends) with one of these code points exactly when it begins (ends)
  with its bytes.
\<close>

definition white_space :: "string list" where
  "white_space =
     [[CHR 0x09], [CHR 0x0A], [CHR 0x0B], [CHR 0x0C], [CHR 0x0D], [CHR 0x20],
      [CHR 0xC2, CHR 0xA0],
      [CHR 0xE1, CHR 0x9A, CHR 0x80],
      [CHR 0xE2, CHR 0x80, CHR 0x80], [CHR 0xE2, CHR 0x80, CHR 0x81],
      [CHR 0xE2, CHR 0x80, CHR 0x82], [CHR 0xE2, CHR 0x80, CHR 0x83],
      [CHR 0xE2, CHR 0x80, CHR 0x84], [CHR 0xE2, CHR 0x80, CHR 0x85],
      [CHR 0xE2, CHR 0x80, CHR 0x86], [CHR 0xE2, CHR 0x80, CHR 0x87],
      [CHR 0xE2, CHR 0x80, CHR 0x88], [CHR 0xE2, CHR 0x80, CHR 0x89],
      [CHR 0xE2, CHR 0x80, CHR 0x8A],
      [CHR 0xE2, CHR 0x80, CHR 0xA8], [CHR 0xE2, CHR 0x80, CHR 0xA9],
      [CHR 0xE2, CHR 0x80, CHR 0xAF],
      [CHR 0xE2, CHR 0x81, CHR 0x9F],
      [CHR 0xE3, CHR 0x80, CHR 0x80],
      [CHR 0xEF, CHR 0xBB, CHR 0xBF]]"

text \<open>The rest of a string after the first of the given non-empty words that it begins with.\<close>

fun strip_one :: "string list \<Rightarrow> string \<Rightarrow> string option" where
  "strip_one [] s = None"
| "strip_one (w # ws) s =
     (if w \<noteq> [] \<and> take (length w) s = w then Some (drop (length w) s)
      else strip_one ws s)"

text \<open>Stripping such words from the beginning for as long as there is one.\<close>

function strip_leading :: "string list \<Rightarrow> string \<Rightarrow> string" where
  "strip_leading ws s =
     (case strip_one ws s of None \<Rightarrow> s | Some t \<Rightarrow> strip_leading ws t)"
  by pat_completeness auto
termination
proof (relation "measure (\<lambda>(ws, s). length s)")
  show "wf (measure (\<lambda>(ws, s). length s))" by simp
next
  fix ws :: "string list" and s t :: string
  assume "strip_one ws s = Some t"
  then have "length t < length s"
  proof (induction ws)
    case Nil
    then show ?case by simp
  next
    case (Cons w ws)
    show ?case
    proof (cases "w \<noteq> [] \<and> take (length w) s = w")
      case True
      then have "s \<noteq> []" by auto
      with True Cons.prems show ?thesis by auto
    next
      case False
      with Cons show ?thesis by auto
    qed
  qed
  then show "((ws, t), (ws, s)) \<in> measure (\<lambda>(ws, s). length s)" by simp
qed

declare strip_leading.simps [simp del]

definition trim :: "string \<Rightarrow> string" where
  "trim s = rev (strip_leading (map rev white_space) (rev (strip_leading white_space s)))"

text \<open>
  \<open>s.charAt(0).toUpperCase() + s.slice(1)\<close>, on ASCII letters; any other first character
  stays as it is in the model. A lower-case letter has the code 97 to 122, and its
  upper-case letter the code less 32, which is the same bits with the bit of value 32 cleared.
\<close>

definition toUpperCase_char :: "char \<Rightarrow> char" where
  "toUpperCase_char c =
     (let n = (of_char c :: nat)
      in if 97 \<le> n \<and> n \<le> 122
         then (case c of Char b0 b1 b2 b3 b4 b5 b6 b7 \<Rightarrow> Char b0 b1 b2 b3 b4 False b6 b7)
         else c)"

fun capitalize :: "string \<Rightarrow> string" where
  "capitalize [] = []"
| "capitalize (c # cs) = toUpperCase_char c # cs"

text \<open>
  The object that \<open>JSON.parse\<close> returns for the data of a server-sent event, restricted to
  the properties the handler reads, each with the type the wire format gives it and \<open>None\<close>
  when the property is absent. A string property is truthy when present and non-empty.
\<close>

record StreamEvent =
  ev_agent :: "string option"
  ev_status :: "string option"
  ev_text :: "string option"
  ev_final :: "string option"
  ev_query_id :: "string option"
  ev_safety_verified :: "bool option"

definition truthy_str :: "string option \<Rightarrow> bool" where
  "truthy_str x = (case x of Some (c # cs) \<Rightarrow> True | _ \<Rightarrow> False)"

text \<open>\<open>x || d\<close> for a string property \<open>x\<close>.\<close>

definition str_or :: "string option \<Rightarrow> string \<Rightarrow> string" where
  "str_or x d = (case x of Some (c # cs) \<Rightarrow> c # cs | _ \<Rightarrow> d)"

text \<open>
  What a handler gets from outside when it runs: \<open>JSON.parse\<close>, the clock as the template
  literal and \<open>toISOString\<close> render it, the \<open>subject\<close> property of the screen, and
  whether the \<open>EventSource\<close> constructor returned (rather than threw). \<open>JSON_parse\<close> is
  \<open>None\<close> when \<open>JSON.parse\<close> throws and when it returns \<open>null\<close>, whose first property read
  throws inside the same \<open>try\<close> block; for any other value that is not an object every
  property is absent.
\<close>

record Env =
  JSON_parse :: "string \<Rightarrow> StreamEvent option"
  now_text :: string
  now_iso :: string
  subject_prop :: Subject
  es_constructed :: bool

datatype Channel = NoChannel | ChannelOpen | ChannelClosed

text \<open>
  The state of the chat screen: the store, the component state, the variables of the
  closure that \<open>handleSend\<close> creates (\<open>fullResponse\<close>, \<open>agentSteps\<close> as \<open>steps\<close>, the
  \<open>messages\<close> of the render it was called in as \<open>seen_messages\<close>), the event source and
  the log.
\<close>

record ChatScreen =
  store :: AppState
  inputValue :: string
  isStreaming :: bool
  currentStreamingMessage :: string
  fullResponse :: string
  steps :: "AgentStep list"
  seen_messages :: "ChatMessage list"
  channel :: Channel
  effects :: "Effect list"

definition c_log :: "Effect list \<Rightarrow> ChatScreen \<Rightarrow> ChatScreen" where
  "c_log es st = st\<lparr>effects := effects st @ es\<rparr>"

text \<open>\<open>APIClient.createChatStream\<close> builds the URL of the stream; \<open>enc\<close> is \<open>encodeURIComponent\<close>.\<close>

definition createChatStream_url :: "(string \<Rightarrow> string) \<Rightarrow> string \<Rightarrow> string \<Rightarrow> string \<Rightarrow> string" where
  "createChatStream_url enc baseURL query studentId =
     baseURL @ ''/api/chat/stream?query='' @ enc query @ ''&student_id='' @ studentId"

definition handleSend :: "Env \<Rightarrow> ChatScreen \<Rightarrow> ChatScreen" where
  "handleSend env st =
     (if trim (inputValue st) = [] \<or> student (store st) = None \<or> isStreaming st then st
      else
        case student (store st) of
          None \<Rightarrow> st
        | Some p \<Rightarrow>
            let query = trim (inputValue st);
                userMessage =
                  \<lparr>msg_id = ''user-'' @ now_text env, role = User, content = query,
                   timestamp = now_iso env, thoughtExpanded = None, agentSteps = None,
                   safety_verified = None\<rparr>;
                st1 = st\<lparr>inputValue := [], store := addMessage userMessage (store st),
                         isStreaming := True, currentStreamingMessage := []\<rparr>;
                st2 = c_log [CreateChatStream query (student_id p)] st1
            in if es_constructed env
               then st2\<lparr>fullResponse := [], steps := [], seen_messages := messages (store st),
                        channel := ChannelOpen\<rparr>
               else (c_log [ConsoleError ''Failed to start chat stream:'',
                          ToastError ''Failed to send message. Please try again!''] st2)
                      \<lparr>isStreaming := False, currentStreamingMessage := []\<rparr>)"

text \<open>The record that \<open>onmessage\<close> pushes onto \<open>agentSteps\<close> for a stage event.\<close>

definition step_of :: "StreamEvent \<Rightarrow> AgentStep" where
  "step_of d =
     (let agentName = capitalize (str_or (ev_agent d) [])
      in \<lparr>agent = agentName @ '' Agent'',
          action = str_or (ev_text d)
                     (if ev_status d = Some ''thinking'' then ''Thinking...''
                      else ''Finished step'')\<rparr>)"

text \<open>The body of the \<open>try\<close> block of \<open>onmessage\<close>, on the parsed data.\<close>

definition on_payload :: "Env \<Rightarrow> StreamEvent \<Rightarrow> ChatScreen \<Rightarrow> ChatScreen" where
  "on_payload env d st =
     (if truthy_str (ev_agent d) then
        let st1 = (if ev_status d = Some ''done'' \<and> truthy_str (ev_text d)
                   then st\<lparr>fullResponse := str_or (ev_text d) [],
                           currentStreamingMessage := str_or (ev_text d) []\<rparr>
                   else st)
        in st1\<lparr>steps := steps st1 @ [step_of d]\<rparr>
      else if truthy_str (ev_final d) then
        let final = str_or (ev_final d) [];
            finalQueryId = str_or (ev_query_id d) (''q_'' @ now_text env);
            st1 = st\<lparr>fullResponse := final,
                     store := addMessage
                       \<lparr>msg_id = finalQueryId, role = Ai, content = final,
                        timestamp = now_iso env, thoughtExpanded = Some False,
                        agentSteps = Some (steps st),
                        safety_verified = ev_safety_verified d\<rparr> (store st),
                     currentStreamingMessage := [], isStreaming := False,
                     channel := ChannelClosed\<rparr>
        in if seen_messages st \<noteq> [] then c_log [FetchMedia (subject_prop env)] st1 else st1
      else st)"

definition onmessage :: "Env \<Rightarrow> string \<Rightarrow> ChatScreen \<Rightarrow> ChatScreen" where
  "onmessage env data st =
     (if data = ''[DONE]'' then st\<lparr>channel := ChannelClosed, isStreaming := False\<rparr>
      else case JSON_parse env data of
             None \<Rightarrow> c_log [ConsoleError ''Error parsing SSE data:''] st
           | Some d \<Rightarrow> on_payload env d st)"

definition onerror :: "ChatScreen \<Rightarrow> ChatScreen" where
  "onerror st =
     (c_log [ConsoleError ''SSE Error:'', ToastError ''Connection lost. Please try again.''] st)
       \<lparr>isStreaming := False, currentStreamingMessage := [], channel := ChannelClosed\<rparr>"

text \<open>
  The event source calls a handler only while it is open: after \<open>close()\<close> it dispatches
  nothing more. A stream is the list of what arrives, each with the environment of its arrival.
\<close>

datatype SSE = Message string | Error

definition deliver :: "Env \<Rightarrow> SSE \<Rightarrow> ChatScreen \<Rightarrow> ChatScreen" where
  "deliver env ev st =
     (if channel st = ChannelOpen
      then (case ev of Message data \<Rightarrow> onmessage env data st | Error \<Rightarrow> onerror st)
      else st)"

fun run_stream :: "(Env \<times> SSE) list \<Rightarrow> ChatScreen \<Rightarrow> ChatScreen" where
  "run_stream [] st = st"
| "run_stream ((env, ev) # rest) st = run_stream rest (deliver env ev st)"


section \<open>The challenge rounds (GameScreen)\<close>

record Challenge =
  question :: string
  options :: "string list"
  correct :: string
  explanation :: string
  trait :: string

record ChallengeResponse =
  cr_success :: bool
  challenge :: Challenge

text \<open>Of the reply to a submitted game result the screen reads \<open>xp_earned\<close> only.\<close>

record GameSubmitResponse =
  xp_earned :: number

datatype Feedback = Correct | Wrong

text \<open>
  The state of the game screen: the store, the \<open>subject\<close> property, the component state
  and the log. A request to the API is an argument of the function that awaits it:
  \<open>Inr\<close> the response, \<open>Inl\<close> the message of the error thrown.
\<close>

record GameScreen =
  g_store :: AppState
  g_subject :: Subject
  currentChallenge :: "Challenge option"
  challengeCount :: nat
  isGenerating :: bool
  feedback :: "Feedback option"
  startTime :: int
  g_effects :: "Effect list"

definition g_log :: "Effect list \<Rightarrow> GameScreen \<Rightarrow> GameScreen" where
  "g_log es g = g\<lparr>g_effects := g_effects g @ es\<rparr>"

definition types :: "ChallengeType list" where
  "types = [IQ, EQ, Concept]"

definition fetchNewChallenge :: "string + ChallengeResponse \<Rightarrow> int \<Rightarrow> GameScreen \<Rightarrow> GameScreen" where
  "fetchNewChallenge fetched now g =
     (case student (g_store g) of
        None \<Rightarrow> g
      | Some p \<Rightarrow>
          let g1 = g_log [GenerateDynamicChallenge (student_id p) (g_subject g) (grade p)
                            (types ! (challengeCount g mod 3))]
                     (g\<lparr>isGenerating := True\<rparr>);
              g2 = (case fetched of
                      Inr response \<Rightarrow>
                        if cr_success response
                        then g1\<lparr>currentChallenge := Some (challenge response), startTime := now\<rparr>
                        else g1
                    | Inl err \<Rightarrow> g_log [ConsoleError ''Failed to generate challenge:''] g1)
          in g2\<lparr>isGenerating := False\<rparr>)"

text \<open>
  \<open>handleAnswer\<close> up to the point where it has set its timer. \<open>now\<close> is the clock when the
  answer is given, \<open>submitted\<close> the outcome of \<open>submitGameResult\<close>.
\<close>

definition handleAnswer :: "string \<Rightarrow> int \<Rightarrow> string + GameSubmitResponse \<Rightarrow> GameScreen \<Rightarrow> GameScreen" where
  "handleAnswer selectedOption now submitted g =
     (case currentChallenge g of
        None \<Rightarrow> g
      | Some ch \<Rightarrow>
          if feedback g \<noteq> None then g
          else if selectedOption = correct ch then
            let g1 = g\<lparr>feedback := Some Correct\<rparr>;
                timeTaken = of_int (now - startTime g) / 1000;
                g2 = (case student (g_store g) of
                        None \<Rightarrow> g1
                      | Some p \<Rightarrow>
                          let g1' = g_log [SubmitGameResult
                                      \<lparr>gr_student_id = student_id p,
                                       game_type = (if trait ch = [] then ''dynamic'' else trait ch),
                                       score = 100, time_taken = timeTaken, is_dynamic = True\<rparr>] g1
                          in (case submitted of
                               Inr response \<Rightarrow>
                                 let earned = num_or (xp_earned response) (Finite 15)
                                 in g_log [ToastXpEarned earned]
                                      (g1'\<lparr>g_store := addXp earned (g_store g1')\<rparr>)
                             | Inl err \<Rightarrow>
                                 g_log [ConsoleError ''Failed to submit game result:'',
                                        ToastXpEarned (Finite 15)]
                                   (g1'\<lparr>g_store := addXp (Finite 15) (g_store g1')\<rparr>)))
            in g_log [SetTimeout (AfterCorrect (challengeCount g)) 1500] g2
          else g_log [SetTimeout AfterWrong 1000] (g\<lparr>feedback := Some Wrong\<rparr>))"

text \<open>
  A timer of \<open>handleAnswer\<close> fires. The timer after a correct answer carries the
  \<open>challengeCount\<close> of the render that set it. When the count changes, the effect hook
  runs \<open>fetchNewChallenge\<close>, whose request has the outcome \<open>fetched\<close>. The timer of the
  upload screen is none of this screen's and does nothing here.
\<close>

fun timer_fires :: "Timer \<Rightarrow> string + ChallengeResponse \<Rightarrow> int \<Rightarrow> GameScreen \<Rightarrow> GameScreen" where
  "timer_fires (AfterCorrect count) fetched now g =
     (let g1 = g\<lparr>feedback := None\<rparr>
      in if count < 2
         then fetchNewChallenge fetched now (g1\<lparr>challengeCount := challengeCount g1 + 1\<rparr>)
         else g_log [OnComplete] g1)"
| "timer_fires AfterWrong fetched now g = g\<lparr>feedback := None\<rparr>"
| "timer_fires UploadDone fetched now g = g"

section \<open>The textbook upload (UploadScreen)\<close>

record UploadResponse =
  ur_success :: bool
  chunks_indexed :: int
  ur_textbook_id :: "string option"

record UploadScreen =
  u_store :: AppState
  u_subject :: Subject
  isDragOver :: bool
  uploadComplete :: bool
  chunksIndexed :: int
  u_effects :: "Effect list"

definition u_log :: "Effect list \<Rightarrow> UploadScreen \<Rightarrow> UploadScreen" where
  "u_log es u = u\<lparr>u_effects := u_effects u @ es\<rparr>"

text \<open>One tick of the interval that simulates the progress of the upload.\<close>

definition progress_tick :: "int \<Rightarrow> int" where
  "progress_tick prev = (if prev \<ge> 90 then 90 else prev + 5)"

text \<open>
  \<open>handleFileUpload\<close> up to the point where it has set its timer: \<open>ticks\<close> is the number of
  times the interval fired while the request was awaited, \<open>uploaded\<close> the outcome of the
  request.
\<close>

definition handleFileUpload :: "File \<Rightarrow> nat \<Rightarrow> string + UploadResponse \<Rightarrow> UploadScreen \<Rightarrow> UploadScreen" where
  "handleFileUpload file ticks uploaded u =
     (case student (u_store u) of
        None \<Rightarrow> u_log [ToastError ''Student profile not found!''] u
      | Some p \<Rightarrow>
          if file_type file \<noteq> ''application/pdf''
          then u_log [ToastError ''Please upload a PDF file''] u
          else if file_size file > 50 * 1024 * 1024
          then u_log [ToastError ''File size must be less than 50MB''] u
          else
            let u1 = u\<lparr>u_store := setUploadProgress (ProgressValue 0)
                                    (setIsUploading True (u_store u))\<rparr>;
                u2 = u_log [UploadTextbook file (student_id p) (u_subject u) (grade p)] u1;
                u3 = u2\<lparr>u_store := (setUploadProgress (ProgressFn progress_tick) ^^ ticks)
                                      (u_store u2)\<rparr>
            in (case uploaded of
                 Inr response \<Rightarrow>
                   u_log [ToastChunksIndexed (chunks_indexed response), SetTimeout UploadDone 2000]
                     (u3\<lparr>u_store := setUploadProgress (ProgressValue 100) (u_store u3),
                         uploadComplete := True,
                         chunksIndexed := chunks_indexed response\<rparr>)
               | Inl message \<Rightarrow>
                   (u_log [ConsoleError ''Upload failed:'',
                           ToastError (if message = [] then ''Upload failed. Please try again!''
                                       else message)] u3)
                     \<lparr>u_store := setIsUploading False
                                   (setUploadProgress (ProgressValue 0) (u_store u3))\<rparr>))"


section \<open>The staged response pipeline (server side)\<close>












section \<open>Observations on a run\<close>

text \<open>
  What a statement about a run reads off it: whether the handler takes what arrived for a
  final event (a parsed payload with no truthy \<open>agent\<close> and a truthy \<open>final\<close>), the records
  of the stage events among what arrived, and, of a log, the game results submitted, the
  timers set and the number of calls of \<open>onComplete\<close>.
\<close>

definition accepted_final :: "Env \<Rightarrow> SSE \<Rightarrow> bool" where
  "accepted_final env ev =
     (case ev of
        Message data \<Rightarrow>
          (case JSON_parse env data of
             Some e \<Rightarrow> \<not> truthy_str (ev_agent e) \<and> truthy_str (ev_final e)
           | None \<Rightarrow> False)
      | Error \<Rightarrow> False)"

fun stage_records :: "(Env \<times> SSE) list \<Rightarrow> AgentStep list" where
  "stage_records [] = []"
| "stage_records ((env, Message data) # rest) =
     (case JSON_parse env data of
        Some e \<Rightarrow> (if truthy_str (ev_agent e) then [step_of e] else [])
      | None \<Rightarrow> [])
     @ stage_records rest"
| "stage_records ((env, Error) # rest) = stage_records rest"

fun submitted_results :: "Effect list \<Rightarrow> GameResultData list" where
  "submitted_results [] = []"
| "submitted_results (SubmitGameResult r # es) = r # submitted_results es"
| "submitted_results (e # es) = submitted_results es"

fun timers_set :: "Effect list \<Rightarrow> Timer list" where
  "timers_set [] = []"
| "timers_set (SetTimeout t ms # es) = t # timers_set es"
| "timers_set (e # es) = timers_set es"

fun completions :: "Effect list \<Rightarrow> nat" where
  "completions [] = 0"
| "completions (OnComplete # es) = Suc (completions es)"
| "completions (e # es) = completions es"

section \<open>Concrete inputs\<close>

definition demo_profile :: StudentProfile where
  "demo_profile =
     \<lparr>student_id = ''s1'', name = ''Rahul'', grade = 4, subject = Science,
      iq_scores = Map.empty, eq_scores = Map.empty, learning_style = ''visual'', xp = Finite 10,
      textbook_id = None\<rparr>"

definition demo_msg :: ChatMessage where
  "demo_msg =
     \<lparr>msg_id = ''m1'', role = Ai, content = ''Hello'', timestamp = ''t0'',
      thoughtExpanded = Some False, agentSteps = None, safety_verified = Some True\<rparr>"

definition demo_store :: AppState where
  "demo_store = initialState\<lparr>student := Some demo_profile, messages := [demo_msg]\<rparr>"

definition demo_rich_store :: AppState where
  "demo_rich_store =
     initialState\<lparr>student := Some (demo_profile\<lparr>xp := Finite 9007199254740992\<rparr>)\<rparr>"







text \<open>
  A stand-in for \<open>JSON.parse\<close> on four payloads, written without their quotation marks;
  it fails on anything else.
\<close>

definition stage_done :: StreamEvent where
  "stage_done =
     \<lparr>ev_agent = Some ''explainer'', ev_status = Some ''done'',
      ev_text = Some ''Water turns to vapor.'', ev_final = None, ev_query_id = None,
      ev_safety_verified = None\<rparr>"

definition stage_thinking :: StreamEvent where
  "stage_thinking =
     \<lparr>ev_agent = Some ''explainer'', ev_status = Some ''thinking'',
      ev_text = None, ev_final = None, ev_query_id = None,
      ev_safety_verified = None\<rparr>"

definition final_event :: StreamEvent where
  "final_event =
     \<lparr>ev_agent = None, ev_status = None, ev_text = None,
      ev_final = Some ''Water turns to vapor. Great job!'', ev_query_id = Some ''q1'',
      ev_safety_verified = Some True\<rparr>"

definition empty_final_event :: StreamEvent where
  "empty_final_event =
     \<lparr>ev_agent = None, ev_status = None, ev_text = None,
      ev_final = Some [], ev_query_id = Some ''q1'',
      ev_safety_verified = Some True\<rparr>"

definition demo_parse :: "string \<Rightarrow> StreamEvent option" where
  "demo_parse data =
     (if data = ''{agent:explainer,status:thinking}'' then Some stage_thinking
      else if data = ''{agent:explainer,status:done,text:...}'' then Some stage_done
      else if data = ''{final:...,query_id:q1,safety_verified:true}'' then Some final_event
      else if data = ''{final:,query_id:q1,safety_verified:true}'' then Some empty_final_event
      else None)"

definition demo_env :: Env where
  "demo_env =
     \<lparr>JSON_parse = demo_parse, now_text = ''1700000000000'',
      now_iso = ''2023-11-14T22:13:20.000Z'', subject_prop = Science, es_constructed = True\<rparr>"

definition demo_chat :: ChatScreen where
  "demo_chat =
     \<lparr>store = demo_store, inputValue = ''  What is evaporation? '', isStreaming = False,
      currentStreamingMessage = [], fullResponse = [], steps = [], seen_messages = [],
      channel = NoChannel, effects = []\<rparr>"

definition demo_streaming :: ChatScreen where
  "demo_streaming = handleSend demo_env demo_chat"

definition demo_challenge :: Challenge where
  "demo_challenge =
     \<lparr>question = ''What does water turn into when it evaporates?'',
      options = [''Vapor'', ''Ice'', ''Sand''], correct = ''Vapor'',
      explanation = ''Evaporation turns water into vapor.'', trait = ''iq''\<rparr>"

definition demo_game :: GameScreen where
  "demo_game =
     \<lparr>g_store = demo_store, g_subject = Science, currentChallenge = Some demo_challenge,
      challengeCount = 0, isGenerating = False, feedback = None, startTime = 1000,
      g_effects = []\<rparr>"

definition demo_next :: "string + ChallengeResponse" where
  "demo_next = Inr \<lparr>cr_success = True,
                    challenge = demo_challenge\<lparr>question := ''Which one is a gas?''\<rparr>\<rparr>"

definition demo_pdf :: File where
  "demo_pdf = \<lparr>file_name = ''science.pdf'', file_type = ''application/pdf'', file_size = 1048576\<rparr>"

definition demo_upload :: UploadScreen where
  "demo_upload =
     \<lparr>u_store = demo_store, u_subject = Science, isDragOver = False, uploadComplete = False,
      chunksIndexed = 0, u_effects = []\<rparr>"

section \<open>Properties of the store\<close>

lemma messages_setUploadProgress: "messages (setUploadProgress a s) = messages s"
  by (cases a) simp_all

lemma toggleThought_nth:
  "k < length (messages s) \<Longrightarrow>
   messages (toggleThought i s) ! k =
     (if msg_id (messages s ! k) = i
      then (messages s ! k)\<lparr>thoughtExpanded :=
             Some (\<not> truthy_flag (thoughtExpanded (messages s ! k)))\<rparr>
      else messages s ! k)"
  by (simp add: toggleThought_def)

lemma dispatch_keeps_entries:
  assumes "a \<noteq> ClearMessages" "a \<noteq> Reset" "k < length (messages s)"
  shows "(messages (dispatch a s) ! k)\<lparr>thoughtExpanded := thoughtExpanded (messages s ! k)\<rparr>
          = messages s ! k"
  using assms
  by (cases a)
     (simp_all add: setStudent_def addMessage_def toggleThought_def setIsLoading_def
        setCurrentScreen_def setIsUploading_def addXp_def toggleTheme_def Let_def nth_append
        messages_setUploadProgress)

lemma dispatch_keeps_length:
  assumes "a \<noteq> ClearMessages" "a \<noteq> Reset"
  shows "length (messages s) \<le> length (messages (dispatch a s))"
  using assms
  by (cases a)
     (simp_all add: setStudent_def addMessage_def toggleThought_def setIsLoading_def
        setCurrentScreen_def setIsUploading_def addXp_def toggleTheme_def Let_def
        messages_setUploadProgress)

text \<open>
  Claim C6, as stated, fails: the transcript is not append-only under every store
  operation. \<open>clearMessages\<close> removes the entries of a transcript that holds one message.
\<close>

theorem transcript_cleared_by_clearMessages:
  "messages demo_store = [demo_msg] \<and> messages (dispatch ClearMessages demo_store) = []"
  by (simp add: demo_store_def clearMessages_def)

text \<open>
  Claim C6, amended: \<open>addMessage\<close> appends the message at the end and changes nothing
  else; \<open>toggleThought\<close> keeps the length and the order, and an entry changes only in its
  \<open>thoughtExpanded\<close> flag, and only when its id matches; every store operation other than
  \<open>clearMessages\<close> and \<open>reset\<close> keeps every existing entry at its place with every field
  but \<open>thoughtExpanded\<close> unchanged; \<open>clearMessages\<close> and \<open>reset\<close> empty the transcript.
\<close>

theorem transcript_frame:
  "addMessage m s = s\<lparr>messages := messages s @ [m]\<rparr>
   \<and> length (messages (toggleThought i s)) = length (messages s)
   \<and> (\<forall>k < length (messages s).
        messages (toggleThought i s) ! k =
          (if msg_id (messages s ! k) = i
           then (messages s ! k)\<lparr>thoughtExpanded :=
                  Some (\<not> truthy_flag (thoughtExpanded (messages s ! k)))\<rparr>
           else messages s ! k))
   \<and> (\<forall>a. a \<noteq> ClearMessages \<and> a \<noteq> Reset \<longrightarrow>
          length (messages s) \<le> length (messages (dispatch a s))
          \<and> (\<forall>k < length (messages s).
               (messages (dispatch a s) ! k)\<lparr>thoughtExpanded := thoughtExpanded (messages s ! k)\<rparr>
                 = messages s ! k))
   \<and> messages (dispatch ClearMessages s) = []
   \<and> messages (dispatch Reset s) = []"
proof -
  have a: "addMessage m s = s\<lparr>messages := messages s @ [m]\<rparr>"
    by (simp add: addMessage_def)
  have b: "length (messages (toggleThought i s)) = length (messages s)"
    by (simp add: toggleThought_def)
  have c: "messages (dispatch ClearMessages s) = []" "messages (dispatch Reset s) = []"
    by (simp_all add: clearMessages_def reset_def)
  from a b c toggleThought_nth dispatch_keeps_entries dispatch_keeps_length
  show ?thesis by blast
qed

text \<open>
  Claim C6, amended, on a transcript of one message.
\<close>

theorem transcript_frame_witness:
  "messages (addMessage demo_msg demo_store) = [demo_msg, demo_msg]
   \<and> messages (toggleThought ''m1'' demo_store) = [demo_msg\<lparr>thoughtExpanded := Some True\<rparr>]
   \<and> messages (dispatch (AddXp (Finite 5)) demo_store) = [demo_msg]"
proof -
  note t = transcript_frame [of demo_msg demo_store "''m1''"]
  have l: "length (messages demo_store) = 1" "messages demo_store ! 0 = demo_msg"
    by (simp_all add: demo_store_def)
  from t have "messages (addMessage demo_msg demo_store) = [demo_msg, demo_msg]"
    by (simp add: demo_store_def)
  moreover from t l have "length (messages (toggleThought ''m1'' demo_store)) = 1"
    and "messages (toggleThought ''m1'' demo_store) ! 0 = demo_msg\<lparr>thoughtExpanded := Some True\<rparr>"
    by (simp_all add: demo_msg_def truthy_flag_def)
  then have "messages (toggleThought ''m1'' demo_store) = [demo_msg\<lparr>thoughtExpanded := Some True\<rparr>]"
    by (cases "messages (toggleThought ''m1'' demo_store)") simp_all
  moreover have "messages (dispatch (AddXp (Finite 5)) demo_store) = [demo_msg]"
    by (simp add: addXp_def demo_store_def)
  ultimately show ?thesis by simp
qed

text \<open>
  Claim C9: \<open>toggleTheme\<close> maps dark to light and light to dark, changes no other field of
  the store, and applied twice gives back the theme it started from.
\<close>

theorem toggleTheme_involution:
  "fst (toggleTheme (s\<lparr>theme := Dark\<rparr>) cl) = s\<lparr>theme := Light\<rparr>
   \<and> fst (toggleTheme (s\<lparr>theme := Light\<rparr>) cl) = s\<lparr>theme := Dark\<rparr>
   \<and> fst (toggleTheme s cl) = s\<lparr>theme := theme (fst (toggleTheme s cl))\<rparr>
   \<and> theme (fst (toggleTheme (fst (toggleTheme s cl)) cl')) = theme s"
  by (cases "theme s") (simp_all add: toggleTheme_def Let_def)

text \<open>
  Claim C9 on the initial state, whose theme is dark.
\<close>

theorem toggleTheme_involution_witness:
  "theme (fst (toggleTheme initialState {})) = Light
   \<and> theme (fst (toggleTheme (fst (toggleTheme initialState {})) {''light''})) = Dark"
proof -
  note t = toggleTheme_involution [of initialState "{}" "{''light''}"]
  have d: "initialState\<lparr>theme := Dark\<rparr> = initialState" "theme initialState = Dark"
    by (simp_all add: initialState_def)
  from t have "fst (toggleTheme (initialState\<lparr>theme := Dark\<rparr>) {}) = initialState\<lparr>theme := Light\<rparr>"
    by blast
  then have "theme (fst (toggleTheme initialState {})) = Light"
    by (simp add: d)
  moreover from t have "theme (fst (toggleTheme (fst (toggleTheme initialState {})) {''light''}))
      = theme initialState"
    by blast
  ultimately show ?thesis by (simp add: d)
qed

lemma round_half_even_int: "round_half_even (of_int k) = k"
  by (simp add: round_half_even_def)

lemma bitlen_one: "bitlen 1 = 1"
  by (simp add: bitlen_alt_def)

lemma bitlen_54: "bitlen 9007199254740992 = 54" "bitlen 9007199254740993 = 54"
proof -
  have "bitlen 9007199254740992 \<le> 54" "bitlen 9007199254740993 \<le> 54"
    using bitlen_le_iff_power [of 9007199254740992 54]
      bitlen_le_iff_power [of 9007199254740993 54] by simp_all
  moreover have "54 \<le> bitlen 9007199254740992" "54 \<le> bitlen 9007199254740993"
    using bitlen_ge_iff_power [of 54 9007199254740992]
      bitlen_ge_iff_power [of 54 9007199254740993] by simp_all
  ultimately show "bitlen 9007199254740992 = 54" "bitlen 9007199254740993 = 54"
    by simp_all
qed

lemma floor_log2_int:
  assumes "0 < z"
  shows "floor_log2 (of_int z) = bitlen z - 1"
proof -
  from bitlen_bounds [OF assms] have "(2::int) ^ nat (bitlen z - 1) \<le> z" by simp
  then have "(of_int ((2::int) ^ nat (bitlen z - 1)) :: rat) \<le> of_int z"
    by (simp only: of_int_le_iff)
  moreover have "0 \<le> bitlen z - 1"
    using assms bitlen_nonneg [of z] bitlen_eq_zero_iff [of z] by linarith
  ultimately have "pow2 (bitlen z - 1) \<le> of_int z"
    by (simp add: pow2_def)
  then show ?thesis
    by (simp add: floor_log2_def quotient_of_int bitlen_one)
qed

lemma scaled_int:
  assumes "e \<le> 0"
  shows "of_int (round_half_even (of_int a / pow2 e)) * pow2 e = (of_int a :: rat)"
proof -
  have "(of_int a :: rat) / pow2 e = of_int (a * 2 ^ nat (- e))"
    using assms by (cases "e = 0") (simp_all add: pow2_def)
  then have "round_half_even (of_int a / pow2 e) = a * 2 ^ nat (- e)"
    by (simp only: round_half_even_int)
  then show ?thesis using assms by (cases "e = 0") (simp_all add: pow2_def)
qed

lemma round_double_pos_int:
  assumes "0 < a" "a \<le> 2 ^ 53"
  shows "round_double (of_int a) = Finite (of_int a)"
    and "round_double (- of_int a) = Finite (- of_int a)"
proof -
  have big: "(of_int a :: rat) < 2 ^ 1024"
  proof -
    have "(of_int a :: rat) \<le> 2 ^ 53"
      using assms(2) by (metis of_int_le_iff of_int_numeral of_int_power)
    also have "\<dots> < 2 ^ 1024" by simp
    finally show ?thesis .
  qed
  have nz: "(of_int a :: rat) \<noteq> 0" "(0::rat) < of_int a" using assms(1) by simp_all
  have fl: "floor_log2 (of_int a) = bitlen a - 1" by (rule floor_log2_int [OF assms(1)])
  have key: "of_int (round_half_even (of_int a / pow2 (max (bitlen a - 1 - 52) (- 1074))))
               * pow2 (max (bitlen a - 1 - 52) (- 1074)) = (of_int a :: rat)"
  proof (cases "a = 2 ^ 53")
    case True
    have "bitlen a = 54" unfolding True by (simp add: bitlen_54)
    then have e: "max (bitlen a - 1 - 52) (- 1074) = 1" by simp
    have "(of_int a :: rat) / pow2 1 = of_int (2 ^ 52)" unfolding True by (simp add: pow2_def)
    then have "round_half_even (of_int a / pow2 1) = 2 ^ 52" by (simp only: round_half_even_int)
    then show ?thesis unfolding e by (simp add: pow2_def True)
  next
    case False
    with assms(2) have "a < 2 ^ 53" by simp
    then have "bitlen a \<le> 53" using bitlen_le_iff_power [of a 53] by simp
    then have "max (bitlen a - 1 - 52) (- 1074) \<le> 0" by simp
    then show ?thesis by (rule scaled_int)
  qed
  show "round_double (of_int a) = Finite (of_int a)"
    using nz big key by (simp add: round_double_def fl Let_def)
  show "round_double (- of_int a) = Finite (- of_int a)"
    using nz big key by (simp add: round_double_def fl Let_def)
qed

lemma round_double_int:
  assumes "\<bar>z\<bar> \<le> 2 ^ 53"
  shows "round_double (of_int z) = Finite (of_int z)"
proof (cases "z = 0")
  case True
  then show ?thesis by (simp add: round_double_def)
next
  case False
  show ?thesis
  proof (cases "0 < z")
    case True
    with assms round_double_pos_int(1) [of z] show ?thesis by simp
  next
    case neg: False
    with False assms have "0 < - z" "- z \<le> 2 ^ 53" by simp_all
    from round_double_pos_int(2) [OF this] show ?thesis by simp
  qed
qed

lemma num_add_safe_int:
  assumes "\<bar>a + b\<bar> \<le> 2 ^ 53"
  shows "num_add (Finite (of_int a)) (Finite (of_int b)) = Finite (of_int (a + b))"
  using round_double_int [OF assms] by simp

lemma round_double_past_safe:
  "round_double 9007199254740993 = Finite 9007199254740992"
proof -
  have "floor_log2 (of_int 9007199254740993) = bitlen 9007199254740993 - 1"
    by (rule floor_log2_int) simp
  then have f: "floor_log2 9007199254740993 = 53" by (simp add: bitlen_54)
  have fl: "\<lfloor>9007199254740993 / 2 :: rat\<rfloor> = 4503599627370496"
    by (rule floor_unique) simp_all
  show ?thesis
    by (simp add: round_double_def f Let_def pow2_def round_half_even_def fl)
qed

text \<open>
  Claim C10, as stated, fails: the amount is added as a double. A student with 2 ^ 53
  experience points who earns one more still has 2 ^ 53.
\<close>

theorem addXp_not_exact:
  "map_option xp (student demo_rich_store) = Some (Finite 9007199254740992)
   \<and> map_option xp (student (addXp (Finite 1) demo_rich_store))
       = Some (Finite 9007199254740992)"
  by (simp add: demo_rich_store_def addXp_def round_double_past_safe)

text \<open>
  Claim C10, amended: with a student logged in, \<open>addXp n\<close> replaces the \<open>xp\<close> field of the
  profile by the sum of \<open>xp\<close> and \<open>n\<close> as JavaScript adds two numbers, and changes no other
  field of the profile or of the store; the sum is \<open>xp\<close> increased by exactly \<open>n\<close> when both
  are integers and the exact sum has a magnitude of at most 2 ^ 53; with no student
  \<open>addXp n\<close> changes nothing.
\<close>

theorem addXp_frame:
  "(student s = Some p \<longrightarrow> addXp n s = s\<lparr>student := Some (p\<lparr>xp := num_add (xp p) n\<rparr>)\<rparr>)
   \<and> (student s = Some p \<and> xp p = Finite (of_int a) \<and> n = Finite (of_int b)
        \<and> \<bar>a + b\<bar> \<le> 2 ^ 53
      \<longrightarrow> addXp n s = s\<lparr>student := Some (p\<lparr>xp := Finite (of_int (a + b))\<rparr>)\<rparr>)
   \<and> (student s = None \<longrightarrow> addXp n s = s)"
  by (auto simp add: addXp_def num_add_safe_int simp del: num_add.simps of_int_add)

text \<open>
  Claim C10, amended, on a store with a student of 10 experience points, and on the
  initial state.
\<close>

theorem addXp_frame_witness:
  "addXp (Finite 15) demo_store = demo_store\<lparr>student := Some (demo_profile\<lparr>xp := Finite 25\<rparr>)\<rparr>
   \<and> addXp (Finite 15) initialState = initialState"
proof -
  have h: "student demo_store = Some demo_profile" "xp demo_profile = Finite (of_int 10)"
    "Finite 15 = Finite (of_int 15)" "\<bar>(10::int) + 15\<bar> \<le> 2 ^ 53"
    "student initialState = None"
    by (simp_all add: demo_store_def demo_profile_def initialState_def)
  from addXp_frame [of demo_store demo_profile "Finite 15" 10 15] h
  have "addXp (Finite 15) demo_store
      = demo_store\<lparr>student := Some (demo_profile\<lparr>xp := Finite (of_int (10 + 15))\<rparr>)\<rparr>"
    by blast
  moreover from addXp_frame [of initialState demo_profile "Finite 15" 10 15] h
  have "addXp (Finite 15) initialState = initialState" by blast
  ultimately show ?thesis by simp
qed

section \<open>Properties of the chat stream\<close>

lemma trim_question: "trim ''  What is evaporation? '' = ''What is evaporation?''"
  by (simp add: trim_def white_space_def strip_leading.simps)



lemma demo_streaming_eq:
  "demo_streaming =
     \<lparr>store = demo_store\<lparr>messages := [demo_msg,
          \<lparr>msg_id = ''user-1700000000000'', role = User, content = ''What is evaporation?'',
           timestamp = ''2023-11-14T22:13:20.000Z'', thoughtExpanded = None, agentSteps = None,
           safety_verified = None\<rparr>]\<rparr>,
      inputValue = [], isStreaming = True,
      currentStreamingMessage = [], fullResponse = [], steps = [], seen_messages = [demo_msg],
      channel = ChannelOpen, effects = [CreateChatStream ''What is evaporation?'' ''s1'']\<rparr>"
  by (simp add: demo_streaming_def handleSend_def demo_chat_def demo_env_def demo_store_def
      demo_profile_def trim_question addMessage_def c_log_def Let_def initialState_def)

lemma run_stream_append: "run_stream (xs @ ys) st = run_stream ys (run_stream xs st)"
  by (induction xs arbitrary: st) auto

lemma run_stream_not_open: "channel st \<noteq> ChannelOpen \<Longrightarrow> run_stream evs st = st"
  by (induction evs arbitrary: st) (auto simp: deliver_def)

lemma deliver_store:
  "\<not> accepted_final env ev \<Longrightarrow> store (deliver env ev st) = store st"
  by (auto simp: deliver_def accepted_final_def onmessage_def on_payload_def onerror_def c_log_def
      Let_def split: SSE.splits option.splits)

lemma deliver_failed_inv:
  assumes "channel st = ChannelOpen
           \<or> (channel st = ChannelClosed \<and> \<not> isStreaming st \<and> currentStreamingMessage st = [])"
    and "ev \<noteq> Message ''[DONE]''"
  shows "channel (deliver env ev st) = ChannelOpen
         \<or> (channel (deliver env ev st) = ChannelClosed \<and> \<not> isStreaming (deliver env ev st)
            \<and> currentStreamingMessage (deliver env ev st) = [])"
  using assms
  by (auto simp: deliver_def onmessage_def on_payload_def onerror_def c_log_def
      Let_def split: SSE.splits option.splits)

lemma run_stream_failed_inv:
  assumes "channel st = ChannelOpen
           \<or> (channel st = ChannelClosed \<and> \<not> isStreaming st \<and> currentStreamingMessage st = [])"
    and "\<forall>(env, ev) \<in> set pre. ev \<noteq> Message ''[DONE]''"
  shows "channel (run_stream pre st) = ChannelOpen
         \<or> (channel (run_stream pre st) = ChannelClosed \<and> \<not> isStreaming (run_stream pre st)
            \<and> currentStreamingMessage (run_stream pre st) = [])"
  using assms
proof (induction pre arbitrary: st)
  case Nil
  then show ?case by simp
next
  case (Cons x xs)
  obtain env ev where x: "x = (env, ev)" by (cases x)
  from Cons.prems x have "ev \<noteq> Message ''[DONE]''" by simp
  from deliver_failed_inv [OF Cons.prems(1) this]
  have "channel (deliver env ev st) = ChannelOpen
         \<or> (channel (deliver env ev st) = ChannelClosed \<and> \<not> isStreaming (deliver env ev st)
            \<and> currentStreamingMessage (deliver env ev st) = [])" .
  moreover from Cons.prems have "\<forall>(env, ev) \<in> set xs. ev \<noteq> Message ''[DONE]''" by simp
  ultimately show ?case using Cons.IH by (simp add: x)
qed

lemma run_stream_store:
  "\<forall>(env, ev) \<in> set evs. \<not> accepted_final env ev \<Longrightarrow> store (run_stream evs st) = store st"
  by (induction evs arbitrary: st) (auto simp: deliver_store)

lemma deliver_before_final:
  assumes "channel st = ChannelOpen" "data \<noteq> ''[DONE]''" "\<not> accepted_final env (Message data)"
  shows "channel (deliver env (Message data) st) = ChannelOpen"
    and "store (deliver env (Message data) st) = store st"
    and "steps (deliver env (Message data) st) = steps st @ stage_records [(env, Message data)]"
  using assms
  by (auto simp: deliver_def onmessage_def on_payload_def accepted_final_def c_log_def Let_def
      split: option.splits)

lemma run_before_final:
  assumes "channel st = ChannelOpen"
    and "\<forall>(env, ev) \<in> set pre. ev \<noteq> Message ''[DONE]'' \<and> ev \<noteq> Error \<and> \<not> accepted_final env ev"
  shows "channel (run_stream pre st) = ChannelOpen
       \<and> store (run_stream pre st) = store st
       \<and> steps (run_stream pre st) = steps st @ stage_records pre"
  using assms
proof (induction pre arbitrary: st)
  case Nil
  then show ?case by simp
next
  case (Cons x xs)
  obtain env ev where x: "x = (env, ev)" by (cases x)
  from Cons.prems x obtain data where ev: "ev = Message data" and d: "data \<noteq> ''[DONE]''"
    and nf: "\<not> accepted_final env (Message data)"
    by (cases ev) auto
  note s = deliver_before_final [OF Cons.prems(1) d nf]
  from Cons.prems have rest: "\<forall>(env, ev) \<in> set xs.
      ev \<noteq> Message ''[DONE]'' \<and> ev \<noteq> Error \<and> \<not> accepted_final env ev" by simp
  from Cons.IH [OF s(1) rest] s show ?case
    by (simp add: x ev del: stage_records.simps)
       (simp split: option.splits)
qed

lemma final_event_step:
  assumes "channel st = ChannelOpen" "data \<noteq> ''[DONE]''" "JSON_parse env data = Some e"
    "\<not> truthy_str (ev_agent e)" "ev_final e = Some final" "final \<noteq> []"
  shows "store (deliver env (Message data) st) =
           addMessage \<lparr>msg_id = str_or (ev_query_id e) (''q_'' @ now_text env), role = Ai,
                       content = final, timestamp = now_iso env, thoughtExpanded = Some False,
                       agentSteps = Some (steps st),
                       safety_verified = ev_safety_verified e\<rparr> (store st)
       \<and> currentStreamingMessage (deliver env (Message data) st) = []
       \<and> \<not> isStreaming (deliver env (Message data) st)
       \<and> channel (deliver env (Message data) st) = ChannelClosed"
  using assms
  by (cases final)
     (simp_all add: deliver_def onmessage_def on_payload_def Let_def truthy_str_def str_or_def
        c_log_def)

text \<open>
  Claim C2, as stated, fails on a final event whose final text is empty: the handler tests
  \<open>data.final\<close> for truthiness, takes the event for nothing, appends no message and leaves
  the channel open and the streaming flag set.
\<close>

theorem empty_final_event_ignored:
  "JSON_parse demo_env ''{final:,query_id:q1,safety_verified:true}'' = Some empty_final_event
   \<and> ev_final empty_final_event = Some []
   \<and> store (deliver demo_env (Message ''{final:,query_id:q1,safety_verified:true}'') demo_streaming)
       = store demo_streaming
   \<and> channel (deliver demo_env (Message ''{final:,query_id:q1,safety_verified:true}'') demo_streaming)
       = ChannelOpen
   \<and> isStreaming (deliver demo_env (Message ''{final:,query_id:q1,safety_verified:true}'') demo_streaming)"
  by (simp add: demo_streaming_eq deliver_def onmessage_def on_payload_def demo_env_def
      demo_parse_def empty_final_event_def truthy_str_def)

text \<open>
  Claim C2, amended: on an open channel, after any events that are neither the sentinel,
  nor an error, nor a final event the handler accepts, a final event with a non-empty
  final text and no non-empty \<open>agent\<close> appends exactly one AI message, whose content is the
  final text, whose agent steps are the records accumulated so far followed by one record
  per stage event received earlier, in the order of arrival, and whose safety flag is the
  event's \<open>safety_verified\<close>; the interim text is cleared, streaming is marked finished,
  the channel is closed, and nothing that arrives later changes the state.
\<close>

theorem final_event_appends_one_message:
  assumes "channel st = ChannelOpen"
    and "\<forall>(env, ev) \<in> set earlier.
           ev \<noteq> Message ''[DONE]'' \<and> ev \<noteq> Error \<and> \<not> accepted_final env ev"
    and "data \<noteq> ''[DONE]''" and "JSON_parse env data = Some e"
    and "\<not> truthy_str (ev_agent e)" and "ev_final e = Some final" and "final \<noteq> []"
  shows "store (run_stream (earlier @ (env, Message data) # later) st) =
           addMessage \<lparr>msg_id = str_or (ev_query_id e) (''q_'' @ now_text env), role = Ai,
                       content = final, timestamp = now_iso env, thoughtExpanded = Some False,
                       agentSteps = Some (steps st @ stage_records earlier),
                       safety_verified = ev_safety_verified e\<rparr> (store st)
       \<and> currentStreamingMessage (run_stream (earlier @ (env, Message data) # later) st) = []
       \<and> \<not> isStreaming (run_stream (earlier @ (env, Message data) # later) st)
       \<and> channel (run_stream (earlier @ (env, Message data) # later) st) = ChannelClosed
       \<and> run_stream (earlier @ (env, Message data) # later) st
         = run_stream (earlier @ [(env, Message data)]) st"
proof -
  let ?mid = "run_stream earlier st"
  let ?fin = "deliver env (Message data) ?mid"
  note r = run_before_final [OF assms(1) assms(2)]
  from r have o: "channel ?mid = ChannelOpen" by simp
  note f = final_event_step [OF o assms(3) assms(4) assms(5) assms(6) assms(7)]
  from f have c: "channel ?fin \<noteq> ChannelOpen" by simp
  have e1: "run_stream (earlier @ (env, Message data) # later) st = ?fin"
    by (simp add: run_stream_append run_stream_not_open [OF c])
  have e2: "run_stream (earlier @ [(env, Message data)]) st = ?fin"
    by (simp add: run_stream_append)
  from f r show ?thesis unfolding e1 e2 by simp
qed

text \<open>
  Claim C2, amended, on a stream of two stage events around a line that does not parse,
  a final event, the sentinel and an error.
\<close>

theorem final_event_appends_one_message_witness:
  "store (run_stream
            [(demo_env, Message ''{agent:explainer,status:thinking}''),
             (demo_env, Message ''not json''),
             (demo_env, Message ''{agent:explainer,status:done,text:...}''),
             (demo_env, Message ''{final:...,query_id:q1,safety_verified:true}''),
             (demo_env, Message ''[DONE]''),
             (demo_env, Error)] demo_streaming)
     = addMessage
         \<lparr>msg_id = ''q1'', role = Ai, content = ''Water turns to vapor. Great job!'',
          timestamp = ''2023-11-14T22:13:20.000Z'', thoughtExpanded = Some False,
          agentSteps = Some [\<lparr>agent = ''Explainer Agent'', action = ''Thinking...''\<rparr>,
                             \<lparr>agent = ''Explainer Agent'', action = ''Water turns to vapor.''\<rparr>],
          safety_verified = Some True\<rparr> (store demo_streaming)
   \<and> channel (run_stream
            [(demo_env, Message ''{agent:explainer,status:thinking}''),
             (demo_env, Message ''not json''),
             (demo_env, Message ''{agent:explainer,status:done,text:...}''),
             (demo_env, Message ''{final:...,query_id:q1,safety_verified:true}''),
             (demo_env, Message ''[DONE]''),
             (demo_env, Error)] demo_streaming) = ChannelClosed"
proof -
  let ?earlier = "[(demo_env, Message ''{agent:explainer,status:thinking}''),
                   (demo_env, Message ''not json''),
                   (demo_env, Message ''{agent:explainer,status:done,text:...}'')]"
  have p: "JSON_parse demo_env ''{agent:explainer,status:thinking}'' = Some stage_thinking"
    "JSON_parse demo_env ''not json'' = None"
    "JSON_parse demo_env ''{agent:explainer,status:done,text:...}'' = Some stage_done"
    "JSON_parse demo_env ''{final:...,query_id:q1,safety_verified:true}'' = Some final_event"
    by (simp_all add: demo_env_def demo_parse_def)
  have a: "truthy_str (ev_agent stage_thinking)" "truthy_str (ev_agent stage_done)"
    "\<not> truthy_str (ev_agent final_event)"
    by (simp_all add: stage_thinking_def stage_done_def final_event_def truthy_str_def)
  have h1: "channel demo_streaming = ChannelOpen"
    by (simp add: demo_streaming_eq)
  have h2: "\<forall>(env, ev) \<in> set ?earlier.
           ev \<noteq> Message ''[DONE]'' \<and> ev \<noteq> Error \<and> \<not> accepted_final env ev"
    by (simp add: accepted_final_def p a)
  have h3: "''{final:...,query_id:q1,safety_verified:true}'' \<noteq> ''[DONE]''" by simp
  have h6: "ev_final final_event = Some ''Water turns to vapor. Great job!''"
    by (simp add: final_event_def)
  have h7: "''Water turns to vapor. Great job!'' \<noteq> []" by simp
  have s: "steps demo_streaming = []" by (simp add: demo_streaming_eq)
  have v: "step_of stage_thinking = \<lparr>agent = ''Explainer Agent'', action = ''Thinking...''\<rparr>"
    "step_of stage_done = \<lparr>agent = ''Explainer Agent'', action = ''Water turns to vapor.''\<rparr>"
    by (simp_all add: step_of_def stage_thinking_def stage_done_def str_or_def toUpperCase_char_def)
  have r: "stage_records ?earlier =
      [\<lparr>agent = ''Explainer Agent'', action = ''Thinking...''\<rparr>,
       \<lparr>agent = ''Explainer Agent'', action = ''Water turns to vapor.''\<rparr>]"
    by (simp add: p a v)
  have q: "\<And>d. str_or (ev_query_id final_event) d = ''q1''"
    "ev_safety_verified final_event = Some True" "now_iso demo_env = ''2023-11-14T22:13:20.000Z''"
    by (simp_all add: final_event_def str_or_def demo_env_def)
  note t = final_event_appends_one_message
         [where later = "[(demo_env, Message ''[DONE]''), (demo_env, Error)]",
          OF h1 h2 h3 p(4) a(3) h6 h7]
  from t [THEN conjunct1] have c1: "store (run_stream
            [(demo_env, Message ''{agent:explainer,status:thinking}''),
             (demo_env, Message ''not json''),
             (demo_env, Message ''{agent:explainer,status:done,text:...}''),
             (demo_env, Message ''{final:...,query_id:q1,safety_verified:true}''),
             (demo_env, Message ''[DONE]''),
             (demo_env, Error)] demo_streaming)
     = addMessage
         \<lparr>msg_id = ''q1'', role = Ai, content = ''Water turns to vapor. Great job!'',
          timestamp = ''2023-11-14T22:13:20.000Z'', thoughtExpanded = Some False,
          agentSteps = Some [\<lparr>agent = ''Explainer Agent'', action = ''Thinking...''\<rparr>,
                             \<lparr>agent = ''Explainer Agent'', action = ''Water turns to vapor.''\<rparr>],
          safety_verified = Some True\<rparr> (store demo_streaming)"
    unfolding r s q by simp
  from t [THEN conjunct2, THEN conjunct2, THEN conjunct2, THEN conjunct1]
  have c2: "channel (run_stream
            [(demo_env, Message ''{agent:explainer,status:thinking}''),
             (demo_env, Message ''not json''),
             (demo_env, Message ''{agent:explainer,status:done,text:...}''),
             (demo_env, Message ''{final:...,query_id:q1,safety_verified:true}''),
             (demo_env, Message ''[DONE]''),
             (demo_env, Error)] demo_streaming) = ChannelClosed"
    by simp
  from c1 c2 show ?thesis by blast
qed

text \<open>
  Claim C3: on the token \<open>[DONE]\<close> the handler closes the channel and clears the streaming
  flag, whatever \<open>JSON.parse\<close> is, so the token is never parsed; any other data goes to
  \<open>JSON.parse\<close>, and then either the channel and the streaming flag stay as they were or
  a message is appended to the transcript, which the sentinel never does.
\<close>

theorem done_token_is_the_sentinel:
  "onmessage env ''[DONE]'' st = st\<lparr>channel := ChannelClosed, isStreaming := False\<rparr>
   \<and> (data \<noteq> ''[DONE]'' \<longrightarrow>
        onmessage env data st =
          (case JSON_parse env data of
             None \<Rightarrow> c_log [ConsoleError ''Error parsing SSE data:''] st
           | Some d \<Rightarrow> on_payload env d st))
   \<and> (data \<noteq> ''[DONE]'' \<longrightarrow>
        (channel (onmessage env data st) = channel st
         \<and> isStreaming (onmessage env data st) = isStreaming st)
        \<or> length (messages (store (onmessage env data st)))
            = Suc (length (messages (store st))))"
  by (auto simp: onmessage_def on_payload_def c_log_def Let_def addMessage_def split: option.splits)

text \<open>
  Claim C3 on the token, and on the token with a space before it, which is not the sentinel.
\<close>

theorem done_token_is_the_sentinel_witness:
  "onmessage demo_env ''[DONE]'' demo_streaming
     = demo_streaming\<lparr>channel := ChannelClosed, isStreaming := False\<rparr>
   \<and> channel (onmessage demo_env '' [DONE]'' demo_streaming) = ChannelOpen
   \<and> isStreaming (onmessage demo_env '' [DONE]'' demo_streaming)"
proof -
  note t = done_token_is_the_sentinel [of demo_env demo_streaming "'' [DONE]''"]
  have p: "JSON_parse demo_env '' [DONE]'' = None"
    by (simp add: demo_env_def demo_parse_def)
  from t have "onmessage demo_env '' [DONE]'' demo_streaming
      = c_log [ConsoleError ''Error parsing SSE data:''] demo_streaming"
    by (simp add: p)
  moreover from t have "onmessage demo_env ''[DONE]'' demo_streaming
     = demo_streaming\<lparr>channel := ChannelClosed, isStreaming := False\<rparr>"
    by blast
  ultimately show ?thesis by (simp add: c_log_def demo_streaming_eq)
qed

text \<open>
  Claim C4: on an open channel, after any events other than the sentinel, an error leaves
  the channel closed, the streaming flag reset and the interim text empty, and appends
  nothing to the transcript; when no final event was accepted before it, the store is the
  one the stream started with, so no AI message comes from the partial output.
\<close>

theorem stream_error_fails_query:
  assumes "channel st = ChannelOpen"
    and "\<forall>(env, ev) \<in> set pre. ev \<noteq> Message ''[DONE]''"
  shows "channel (run_stream (pre @ [(env, Error)]) st) = ChannelClosed
       \<and> \<not> isStreaming (run_stream (pre @ [(env, Error)]) st)
       \<and> currentStreamingMessage (run_stream (pre @ [(env, Error)]) st) = []
       \<and> store (run_stream (pre @ [(env, Error)]) st) = store (run_stream pre st)
       \<and> ((\<forall>(env, ev) \<in> set pre. \<not> accepted_final env ev)
            \<longrightarrow> store (run_stream (pre @ [(env, Error)]) st) = store st)"
proof -
  let ?mid = "run_stream pre st"
  have e: "run_stream (pre @ [(env, Error)]) st = deliver env Error ?mid"
    by (simp add: run_stream_append)
  have i: "channel ?mid = ChannelOpen
         \<or> (channel ?mid = ChannelClosed \<and> \<not> isStreaming ?mid \<and> currentStreamingMessage ?mid = [])"
    using run_stream_failed_inv assms by blast
  have n: "\<not> accepted_final env Error" by (simp add: accepted_final_def)
  from i have a: "channel (deliver env Error ?mid) = ChannelClosed
       \<and> \<not> isStreaming (deliver env Error ?mid)
       \<and> currentStreamingMessage (deliver env Error ?mid) = []"
    by (auto simp: deliver_def onerror_def c_log_def)
  have b: "store (deliver env Error ?mid) = store ?mid"
    using deliver_store [OF n] .
  from a b run_stream_store show ?thesis unfolding e by simp
qed

text \<open>
  Claim C4 on a stream that errors after the output of the first stage, which was the
  interim text until then.
\<close>

theorem stream_error_fails_query_witness:
  "channel (run_stream [(demo_env, Message ''{agent:explainer,status:done,text:...}''),
                        (demo_env, Error)] demo_streaming) = ChannelClosed
   \<and> \<not> isStreaming (run_stream [(demo_env, Message ''{agent:explainer,status:done,text:...}''),
                        (demo_env, Error)] demo_streaming)
   \<and> currentStreamingMessage (run_stream [(demo_env, Message ''{agent:explainer,status:done,text:...}''),
                        (demo_env, Error)] demo_streaming) = []
   \<and> store (run_stream [(demo_env, Message ''{agent:explainer,status:done,text:...}''),
                        (demo_env, Error)] demo_streaming) = store demo_streaming
   \<and> currentStreamingMessage (run_stream [(demo_env, Message ''{agent:explainer,status:done,text:...}'')]
        demo_streaming) = ''Water turns to vapor.''"
proof -
  let ?pre = "[(demo_env, Message ''{agent:explainer,status:done,text:...}'')]"
  have h1: "channel demo_streaming = ChannelOpen" by (simp add: demo_streaming_eq)
  have h2: "\<forall>(env, ev) \<in> set ?pre. ev \<noteq> Message ''[DONE]''" by simp
  have h3: "\<forall>(env, ev) \<in> set ?pre. \<not> accepted_final env ev"
    by (simp add: accepted_final_def demo_env_def demo_parse_def stage_done_def truthy_str_def)
  have p: "currentStreamingMessage (run_stream ?pre demo_streaming) = ''Water turns to vapor.''"
    by (simp add: demo_streaming_eq deliver_def onmessage_def on_payload_def demo_env_def
        demo_parse_def stage_done_def truthy_str_def str_or_def)
  note t = stream_error_fails_query [OF h1 h2, of demo_env]
  from t h3 have "store (run_stream (?pre @ [(demo_env, Error)]) demo_streaming) = store demo_streaming"
    by blast
  moreover from t have "channel (run_stream (?pre @ [(demo_env, Error)]) demo_streaming) = ChannelClosed"
    and "\<not> isStreaming (run_stream (?pre @ [(demo_env, Error)]) demo_streaming)"
    and "currentStreamingMessage (run_stream (?pre @ [(demo_env, Error)]) demo_streaming) = []"
    by blast+
  ultimately show ?thesis using p by simp
qed



section \<open>Properties of the challenge rounds\<close>

lemma submitted_results_append:
  "submitted_results (xs @ ys) = submitted_results xs @ submitted_results ys"
  by (induction xs rule: submitted_results.induct) simp_all

lemma timers_set_append: "timers_set (xs @ ys) = timers_set xs @ timers_set ys"
  by (induction xs rule: timers_set.induct) simp_all

lemma completions_append: "completions (xs @ ys) = completions xs + completions ys"
  by (induction xs rule: completions.induct) simp_all

lemma handleAnswer_correct_fields:
  assumes "currentChallenge g = Some ch" "feedback g = None" "sel = correct ch"
  shows "feedback (handleAnswer sel now sub g) = Some Correct"
    and "currentChallenge (handleAnswer sel now sub g) = Some ch"
    and "challengeCount (handleAnswer sel now sub g) = challengeCount g"
    and "timers_set (g_effects (handleAnswer sel now sub g))
          = timers_set (g_effects g) @ [AfterCorrect (challengeCount g)]"
    and "completions (g_effects (handleAnswer sel now sub g)) = completions (g_effects g)"
    and "submitted_results (g_effects (handleAnswer sel now sub g))
          = submitted_results (g_effects g) @
            (case student (g_store g) of
               None \<Rightarrow> []
             | Some p \<Rightarrow>
                 [\<lparr>gr_student_id = student_id p,
                   game_type = (if trait ch = [] then ''dynamic'' else trait ch),
                   score = 100, time_taken = of_int (now - startTime g) / 1000,
                   is_dynamic = True\<rparr>])"
    and "g_store (handleAnswer sel now sub g) = g_store g
         \<or> (\<exists>n. g_store (handleAnswer sel now sub g) = addXp n (g_store g))"
  using assms
  by (auto simp: handleAnswer_def g_log_def Let_def timers_set_append completions_append
        submitted_results_append split: option.splits sum.splits)

lemma handleAnswer_wrong_fields:
  assumes "currentChallenge g = Some ch" "feedback g = None" "sel \<noteq> correct ch"
  shows "feedback (handleAnswer sel now sub g) = Some Wrong"
    and "currentChallenge (handleAnswer sel now sub g) = Some ch"
    and "challengeCount (handleAnswer sel now sub g) = challengeCount g"
    and "timers_set (g_effects (handleAnswer sel now sub g))
          = timers_set (g_effects g) @ [AfterWrong]"
    and "completions (g_effects (handleAnswer sel now sub g)) = completions (g_effects g)"
    and "submitted_results (g_effects (handleAnswer sel now sub g))
          = submitted_results (g_effects g)"
    and "g_store (handleAnswer sel now sub g) = g_store g"
  using assms
  by (simp_all add: handleAnswer_def g_log_def timers_set_append completions_append
        submitted_results_append)

lemma handleAnswer_ignored:
  "feedback g \<noteq> None \<Longrightarrow> handleAnswer sel now sub g = g"
  by (simp add: handleAnswer_def split: option.splits)

lemma fetchNewChallenge_fields:
  "challengeCount (fetchNewChallenge fetched now g) = challengeCount g"
  "feedback (fetchNewChallenge fetched now g) = feedback g"
  "completions (g_effects (fetchNewChallenge fetched now g)) = completions (g_effects g)"
  by (simp_all add: fetchNewChallenge_def g_log_def Let_def completions_append
        split: option.splits sum.splits)

lemma fetchNewChallenge_replaces:
  "student (g_store g) \<noteq> None \<Longrightarrow>
   currentChallenge (fetchNewChallenge (Inr \<lparr>cr_success = True, challenge = new\<rparr>) now g) = Some new"
  by (auto simp: fetchNewChallenge_def g_log_def Let_def)

lemma student_addXp: "student s \<noteq> None \<Longrightarrow> student (addXp n s) \<noteq> None"
  by (simp add: addXp_def split: option.splits)

text \<open>
  Claim C7, as stated, fails: a challenge is not discarded after an answer is graded.
  After a wrong answer the timer clears the feedback, the same challenge is still the
  current one, and the next answer to it is graded again.
\<close>

theorem wrong_answer_keeps_challenge:
  "feedback (handleAnswer ''Ice'' 3000 (Inl ''unused'') demo_game) = Some Wrong
   \<and> currentChallenge (timer_fires AfterWrong demo_next 4000
        (handleAnswer ''Ice'' 3000 (Inl ''unused'') demo_game)) = Some demo_challenge
   \<and> feedback (timer_fires AfterWrong demo_next 4000
        (handleAnswer ''Ice'' 3000 (Inl ''unused'') demo_game)) = None
   \<and> feedback (handleAnswer ''Vapor'' 5000 (Inr \<lparr>xp_earned = Finite 20\<rparr>)
        (timer_fires AfterWrong demo_next 4000
          (handleAnswer ''Ice'' 3000 (Inl ''unused'') demo_game))) = Some Correct"
  by (simp add: handleAnswer_def demo_game_def demo_challenge_def g_log_def demo_store_def
      Let_def addXp_def)

text \<open>
  Claim C7, amended. For a current challenge with no feedback showing, the selected
  option is judged correct exactly when it equals the designated correct option.
  \<open>handleAnswer\<close> keeps the challenge and the round counter, changes the store by \<open>addXp\<close>
  at most, and ignores further answers while the feedback shows. A wrong answer submits
  nothing and leaves the store alone, and when its timer fires only the feedback is
  cleared, so the challenge stays for another answer. Only a correct answer submits a game
  result, with score 100, when a student is logged in; when its timer fires, the round
  counter advances if fewer than three rounds were played, and the challenge fetched for
  the next round replaces the current one, and otherwise \<open>onComplete\<close> is called.
\<close>

theorem handleAnswer_grading:
  assumes "currentChallenge g = Some ch" and "feedback g = None"
  shows "let g' = handleAnswer selectedOption now submitted g in
     (feedback g' = Some Correct \<longleftrightarrow> selectedOption = correct ch)
   \<and> (feedback g' = Some Wrong \<longleftrightarrow> selectedOption \<noteq> correct ch)
   \<and> currentChallenge g' = Some ch
   \<and> challengeCount g' = challengeCount g
   \<and> (g_store g' = g_store g \<or> (\<exists>n. g_store g' = addXp n (g_store g)))
   \<and> submitted_results (g_effects g') =
        submitted_results (g_effects g) @
          (if selectedOption = correct ch
           then (case student (g_store g) of
                   None \<Rightarrow> []
                 | Some p \<Rightarrow>
                     [\<lparr>gr_student_id = student_id p,
                       game_type = (if trait ch = [] then ''dynamic'' else trait ch),
                       score = 100, time_taken = of_int (now - startTime g) / 1000,
                       is_dynamic = True\<rparr>])
           else [])
   \<and> timers_set (g_effects g') =
        timers_set (g_effects g) @
          [if selectedOption = correct ch then AfterCorrect (challengeCount g) else AfterWrong]
   \<and> completions (g_effects g') = completions (g_effects g)
   \<and> handleAnswer selectedOption' now' submitted' g' = g'
   \<and> (selectedOption \<noteq> correct ch \<longrightarrow>
        g_store g' = g_store g
        \<and> timer_fires AfterWrong fetched later g' = g'\<lparr>feedback := None\<rparr>)
   \<and> (selectedOption = correct ch \<and> challengeCount g < 2 \<longrightarrow>
        (let g'' = timer_fires (AfterCorrect (challengeCount g)) fetched later g' in
           feedback g'' = None
           \<and> challengeCount g'' = challengeCount g + 1
           \<and> completions (g_effects g'') = completions (g_effects g)
           \<and> (\<forall>new. student (g_store g) \<noteq> None
                  \<and> fetched = Inr \<lparr>cr_success = True, challenge = new\<rparr>
                  \<longrightarrow> currentChallenge g'' = Some new)))
   \<and> (selectedOption = correct ch \<and> \<not> challengeCount g < 2 \<longrightarrow>
        timer_fires (AfterCorrect (challengeCount g)) fetched later g'
          = g_log [OnComplete] (g'\<lparr>feedback := None\<rparr>))"
proof (cases "selectedOption = correct ch")
  case True
  note c = handleAnswer_correct_fields [OF assms True, of now submitted]
  let ?g' = "handleAnswer selectedOption now submitted g"
  from c(1) have ig: "handleAnswer selectedOption' now' submitted' ?g' = ?g'"
    by (simp add: handleAnswer_ignored)
  have st: "student (g_store ?g') \<noteq> None" if "student (g_store g) \<noteq> None"
  proof -
    from c(7) show ?thesis
    proof
      assume "g_store ?g' = g_store g"
      with that show ?thesis by simp
    next
      assume "\<exists>n. g_store ?g' = addXp n (g_store g)"
      then obtain n where "g_store ?g' = addXp n (g_store g)" ..
      with student_addXp [OF that, of n] show ?thesis by simp
    qed
  qed
  have adv: "challengeCount g < 2 \<Longrightarrow>
      (let g'' = timer_fires (AfterCorrect (challengeCount g)) fetched later ?g' in
           feedback g'' = None
           \<and> challengeCount g'' = challengeCount g + 1
           \<and> completions (g_effects g'') = completions (g_effects g)
           \<and> (\<forall>new. student (g_store g) \<noteq> None
                  \<and> fetched = Inr \<lparr>cr_success = True, challenge = new\<rparr>
                  \<longrightarrow> currentChallenge g'' = Some new))"
    using c(3) c(5) st
    by (auto simp: Let_def fetchNewChallenge_fields fetchNewChallenge_replaces)
  have fin: "\<not> challengeCount g < 2 \<Longrightarrow>
      timer_fires (AfterCorrect (challengeCount g)) fetched later ?g'
          = g_log [OnComplete] (?g'\<lparr>feedback := None\<rparr>)"
    by (simp add: Let_def)
  from True c(1) c(2) c(3) c(4) c(5) c(6) c(7) ig adv fin show ?thesis
    unfolding Let_def by simp
next
  case False
  note w = handleAnswer_wrong_fields [OF assms False, of now submitted]
  let ?g' = "handleAnswer selectedOption now submitted g"
  from w(1) have ig: "handleAnswer selectedOption' now' submitted' ?g' = ?g'"
    by (simp add: handleAnswer_ignored)
  from False w ig show ?thesis
    unfolding Let_def by simp
qed

text \<open>
  Claim C7, amended, on a first-round challenge answered right and answered wrong.
\<close>

theorem handleAnswer_grading_witness:
  "feedback (handleAnswer ''Vapor'' 3000 (Inr \<lparr>xp_earned = Finite 20\<rparr>) demo_game) = Some Correct
   \<and> submitted_results (g_effects (handleAnswer ''Vapor'' 3000 (Inr \<lparr>xp_earned = Finite 20\<rparr>) demo_game))
       = [\<lparr>gr_student_id = ''s1'', game_type = ''iq'', score = 100, time_taken = 2,
           is_dynamic = True\<rparr>]
   \<and> challengeCount (timer_fires (AfterCorrect 0) demo_next 5000
        (handleAnswer ''Vapor'' 3000 (Inr \<lparr>xp_earned = Finite 20\<rparr>) demo_game)) = 1
   \<and> currentChallenge (timer_fires (AfterCorrect 0) demo_next 5000
        (handleAnswer ''Vapor'' 3000 (Inr \<lparr>xp_earned = Finite 20\<rparr>) demo_game))
       = Some (demo_challenge\<lparr>question := ''Which one is a gas?''\<rparr>)
   \<and> feedback (handleAnswer ''Ice'' 3000 (Inr \<lparr>xp_earned = Finite 20\<rparr>) demo_game) = Some Wrong
   \<and> submitted_results (g_effects (handleAnswer ''Ice'' 3000 (Inr \<lparr>xp_earned = Finite 20\<rparr>) demo_game)) = []"
proof -
  have h: "currentChallenge demo_game = Some demo_challenge" "feedback demo_game = None"
    by (simp_all add: demo_game_def)
  have v: "correct demo_challenge = ''Vapor''" "trait demo_challenge = ''iq''"
    "challengeCount demo_game = 0" "startTime demo_game = 1000" "g_effects demo_game = []"
    "student (g_store demo_game) = Some demo_profile" "student_id demo_profile = ''s1''"
    by (simp_all add: demo_game_def demo_challenge_def demo_store_def demo_profile_def)
  note r = handleAnswer_grading
      [OF h, where selectedOption = "''Vapor''" and now = 3000
         and submitted = "Inr \<lparr>xp_earned = Finite 20\<rparr>" and fetched = demo_next and later = 5000,
       unfolded Let_def]
  note w = handleAnswer_grading
      [OF h, where selectedOption = "''Ice''" and now = 3000
         and submitted = "Inr \<lparr>xp_earned = Finite 20\<rparr>" and fetched = demo_next and later = 5000,
       unfolded Let_def]
  from r have 1: "feedback (handleAnswer ''Vapor'' 3000 (Inr \<lparr>xp_earned = Finite 20\<rparr>) demo_game) = Some Correct"
    by (simp add: v)
  from r have 2: "submitted_results (g_effects (handleAnswer ''Vapor'' 3000 (Inr \<lparr>xp_earned = Finite 20\<rparr>) demo_game))
       = [\<lparr>gr_student_id = ''s1'', game_type = ''iq'', score = 100, time_taken = 2,
           is_dynamic = True\<rparr>]"
    by (simp add: v)
  from r have 3: "challengeCount (timer_fires (AfterCorrect 0) demo_next 5000
        (handleAnswer ''Vapor'' 3000 (Inr \<lparr>xp_earned = Finite 20\<rparr>) demo_game)) = 1"
    by (simp add: v del: timer_fires.simps)
  from r have 4: "currentChallenge (timer_fires (AfterCorrect 0) demo_next 5000
        (handleAnswer ''Vapor'' 3000 (Inr \<lparr>xp_earned = Finite 20\<rparr>) demo_game))
       = Some (demo_challenge\<lparr>question := ''Which one is a gas?''\<rparr>)"
    by (simp add: v demo_next_def del: timer_fires.simps)
  from w have 5: "feedback (handleAnswer ''Ice'' 3000 (Inr \<lparr>xp_earned = Finite 20\<rparr>) demo_game) = Some Wrong"
    by (simp add: v)
  from w have 6: "submitted_results (g_effects (handleAnswer ''Ice'' 3000 (Inr \<lparr>xp_earned = Finite 20\<rparr>) demo_game)) = []"
    by (simp add: v)
  from 1 2 3 4 5 6 show ?thesis by blast
qed

section \<open>Properties of the textbook upload\<close>

text \<open>
  Claim C8: with no student logged in, or a file whose type is not \<open>application/pdf\<close>, or
  a file of more than 50 * 1024 * 1024 bytes, \<open>handleFileUpload\<close> only shows an error
  toast: it sends no upload request and changes neither the store nor the state of the
  screen.
\<close>

theorem handleFileUpload_rejects:
  assumes "student (u_store u) = None \<or> file_type file \<noteq> ''application/pdf''
           \<or> file_size file > 50 * 1024 * 1024"
  shows "\<exists>msg. handleFileUpload file ticks uploaded u = u\<lparr>u_effects := u_effects u @ [ToastError msg]\<rparr>"
  using assms
  by (auto simp: handleFileUpload_def u_log_def split: option.splits)

text \<open>
  Claim C8 on an image, on a file one byte over the limit and on a store with no student;
  a file of exactly the limit is uploaded.
\<close>

theorem handleFileUpload_rejects_witness:
  "handleFileUpload (demo_pdf\<lparr>file_type := ''image/png''\<rparr>) 3 (Inr \<lparr>ur_success = True, chunks_indexed = 7, ur_textbook_id = None\<rparr>) demo_upload
     = demo_upload\<lparr>u_effects := [ToastError ''Please upload a PDF file'']\<rparr>
   \<and> handleFileUpload (demo_pdf\<lparr>file_size := 52428801\<rparr>) 3 (Inr \<lparr>ur_success = True, chunks_indexed = 7, ur_textbook_id = None\<rparr>) demo_upload
     = demo_upload\<lparr>u_effects := [ToastError ''File size must be less than 50MB'']\<rparr>
   \<and> handleFileUpload demo_pdf 3 (Inr \<lparr>ur_success = True, chunks_indexed = 7, ur_textbook_id = None\<rparr>) (demo_upload\<lparr>u_store := initialState\<rparr>)
     = demo_upload\<lparr>u_store := initialState, u_effects := [ToastError ''Student profile not found!'']\<rparr>
   \<and> uploadComplete (handleFileUpload (demo_pdf\<lparr>file_size := 52428800\<rparr>) 3 (Inr \<lparr>ur_success = True, chunks_indexed = 7, ur_textbook_id = None\<rparr>) demo_upload)"
proof -
  let ?r = "Inr \<lparr>ur_success = True, chunks_indexed = 7, ur_textbook_id = None\<rparr>"
  have a: "student (u_store demo_upload) = None \<or> file_type (demo_pdf\<lparr>file_type := ''image/png''\<rparr>) \<noteq> ''application/pdf''
           \<or> file_size (demo_pdf\<lparr>file_type := ''image/png''\<rparr>) > 50 * 1024 * 1024"
    by simp
  have b: "student (u_store demo_upload) = None \<or> file_type (demo_pdf\<lparr>file_size := 52428801\<rparr>) \<noteq> ''application/pdf''
           \<or> file_size (demo_pdf\<lparr>file_size := 52428801\<rparr>) > 50 * 1024 * 1024"
    by simp
  have c: "student (u_store (demo_upload\<lparr>u_store := initialState\<rparr>)) = None \<or> file_type demo_pdf \<noteq> ''application/pdf''
           \<or> file_size demo_pdf > 50 * 1024 * 1024"
    by (simp add: initialState_def)
  from handleFileUpload_rejects [OF a, of 3 ?r]
  obtain m1 where 1: "handleFileUpload (demo_pdf\<lparr>file_type := ''image/png''\<rparr>) 3 ?r demo_upload
      = demo_upload\<lparr>u_effects := u_effects demo_upload @ [ToastError m1]\<rparr>" ..
  from handleFileUpload_rejects [OF b, of 3 ?r]
  obtain m2 where 2: "handleFileUpload (demo_pdf\<lparr>file_size := 52428801\<rparr>) 3 ?r demo_upload
      = demo_upload\<lparr>u_effects := u_effects demo_upload @ [ToastError m2]\<rparr>" ..
  from handleFileUpload_rejects [OF c, of 3 ?r]
  obtain m3 where 3: "handleFileUpload demo_pdf 3 ?r (demo_upload\<lparr>u_store := initialState\<rparr>)
      = (demo_upload\<lparr>u_store := initialState\<rparr>)\<lparr>u_effects := u_effects (demo_upload\<lparr>u_store := initialState\<rparr>) @ [ToastError m3]\<rparr>" ..
  have e: "u_effects demo_upload = []" by (simp add: demo_upload_def)
  from 1 have m1: "m1 = ''Please upload a PDF file''"
    by (simp add: handleFileUpload_def u_log_def demo_pdf_def demo_upload_def demo_store_def)
  from 2 have m2: "m2 = ''File size must be less than 50MB''"
    by (simp add: handleFileUpload_def u_log_def demo_pdf_def demo_upload_def demo_store_def)
  from 3 have m3: "m3 = ''Student profile not found!''"
    by (simp add: handleFileUpload_def u_log_def demo_upload_def initialState_def)
  have 4: "uploadComplete (handleFileUpload (demo_pdf\<lparr>file_size := 52428800\<rparr>) 3 ?r demo_upload)"
    by (simp add: handleFileUpload_def u_log_def demo_pdf_def demo_upload_def demo_store_def Let_def)
  from 1 2 3 4 show ?thesis unfolding m1 m2 m3 by (simp add: e)
qed

section \<open>Properties of the pipeline\<close>




end
